theory Spec2Isabelle
  imports Main "HOL-Library.Sublist"
begin

section \<open>Go library functions used by the configuration package\<close>

text \<open>
  The package \<^verbatim>\<open>config\<close> calls a few functions of Go's standard library on
  strings. Go strings are byte sequences, modelled as \<^typ>\<open>string\<close>.
\<close>

text \<open>
  \<^verbatim>\<open>strings.Split(s, sep)\<close>: the pieces of \<open>s\<close> between the non-overlapping
  occurrences of \<open>sep\<close>, found from the left; one piece more than there are
  occurrences. The program only splits at \<open>":"\<close>, at \<open>" \""\<close> and at \<open>"\""\<close>;
  for an empty separator Go explodes the string (into UTF-8 sequences; the
  model takes bytes).
\<close>

function Split :: "string \<Rightarrow> string \<Rightarrow> string list" where
  "Split s sep =
     (if sep = [] then map (\<lambda>c. [c]) s
      else (case s of
              [] \<Rightarrow> [[]]
            | c # cs \<Rightarrow>
                if prefix sep s then [] # Split (drop (length sep) s) sep
                else (case Split cs sep of
                        [] \<Rightarrow> [[c]]
                      | t # ts \<Rightarrow> (c # t) # ts)))"
  by pat_completeness auto
termination
  by (relation "measure (\<lambda>(s, sep). length s)") auto

declare Split.simps [simp del]

text \<open>\<^verbatim>\<open>strings.Contains(s, substr)\<close> and \<^verbatim>\<open>strings.HasPrefix(s, prefix)\<close>.\<close>

fun Contains :: "string \<Rightarrow> string \<Rightarrow> bool" where
  "Contains [] substr = (substr = [])"
| "Contains (c # cs) substr = (prefix substr (c # cs) \<or> Contains cs substr)"

definition HasPrefix :: "string \<Rightarrow> string \<Rightarrow> bool" where
  "HasPrefix s p = prefix p s"

text \<open>
  \<^verbatim>\<open>fmt.Sprintf(format, args...)\<close> with string operands. The program's format
  strings are \<open>"Remote \"%s\""\<close>, \<open>"%s:%s"\<close> and \<open>"%s:"\<close>, so the model
  covers the verb \<open>%s\<close>, the escape \<open>%%\<close>, and what Go prints for a missing
  operand, for operands left over and for a \<open>%\<close> that ends the format. Any
  other verb is outside this fragment and is left in place.
\<close>

fun extra_operands :: "string list \<Rightarrow> string" where
  "extra_operands [] = []"
| "extra_operands [a] = ''string='' @ a"
| "extra_operands (a # b # bs) = ''string='' @ a @ '', '' @ extra_operands (b # bs)"

fun Sprintf :: "string \<Rightarrow> string list \<Rightarrow> string" where
  "Sprintf [] [] = []"
| "Sprintf [] (a # as) = ''%!(EXTRA '' @ extra_operands (a # as) @ '')''"
| "Sprintf [c] args =
     (if c = CHR ''%'' then ''%!(NOVERB)'' @ Sprintf [] args else c # Sprintf [] args)"
| "Sprintf (c # v # fmt) args =
     (if c \<noteq> CHR ''%'' then c # Sprintf (v # fmt) args
      else if v = CHR ''%'' then CHR ''%'' # Sprintf fmt args
      else if v = CHR ''s'' then
        (case args of
           [] \<Rightarrow> ''%!s(MISSING)'' @ Sprintf fmt []
         | a # as \<Rightarrow> a @ Sprintf fmt as)
      else c # v # Sprintf fmt args)"

section \<open>The INI store of the vendored goini library\<close>

text \<open>
  The configuration keeps its data in a \<^verbatim>\<open>*goini.INI\<close>. The library is
  vendored and not part of the sources at hand; its in-memory part is the
  store of the specification: \<^emph>\<open>a mapping from concrete section identifier to
  a mapping from effective-key (bare key name, or \<open>key:specifier\<close>) to value\<close>.
\<close>

type_synonym Kvmap = "string \<rightharpoonup> string"
type_synonym SectionMap = "string \<rightharpoonup> Kvmap"

definition INI_New :: "SectionMap" where
  \<comment> \<open>Modelled from the spec: \<^verbatim>\<open>goini.New()\<close>, the empty store.\<close>
  "INI_New = Map.empty"

definition INI_GetAll :: "SectionMap \<Rightarrow> SectionMap" where
  \<comment> \<open>Modelled from the spec: \<^verbatim>\<open>ini.GetAll()\<close>, the mapping of all sections.\<close>
  "INI_GetAll i = i"

definition INI_GetKvmap :: "SectionMap \<Rightarrow> string \<Rightarrow> Kvmap option" where
  \<comment> \<open>Modelled from the spec: \<^verbatim>\<open>ini.GetKvmap(section)\<close>, the raw key/value
      mapping of a section; \<open>None\<close> is Go's \<open>ok = false\<close>.\<close>
  "INI_GetKvmap i sect = i sect"

definition INI_SectionGet :: "SectionMap \<Rightarrow> string \<Rightarrow> string \<Rightarrow> string \<times> bool" where
  \<comment> \<open>Modelled from the spec: \<^verbatim>\<open>ini.SectionGet(section, key)\<close>, the pair
      \<open>(value, ok)\<close>; a missing section or key gives \<open>("", false)\<close>.\<close>
  "INI_SectionGet i sect k =
     (case i sect of
        None \<Rightarrow> ([], False)
      | Some kvmap \<Rightarrow> (case kvmap k of None \<Rightarrow> ([], False) | Some v \<Rightarrow> (v, True)))"

definition INI_SectionSet :: "SectionMap \<Rightarrow> string \<Rightarrow> string \<Rightarrow> string \<Rightarrow> SectionMap" where
  \<comment> \<open>Modelled from the spec: \<^verbatim>\<open>ini.SectionSet(section, key, value)\<close>; the
      section is created when it is missing.\<close>
  "INI_SectionSet i sect k v =
     (case i sect of
        None \<Rightarrow> i(sect \<mapsto> [k \<mapsto> v])
      | Some kvmap \<Rightarrow> i(sect \<mapsto> kvmap(k \<mapsto> v)))"

definition INI_Delete :: "SectionMap \<Rightarrow> string \<Rightarrow> string \<Rightarrow> SectionMap" where
  \<comment> \<open>Modelled from the spec: \<^verbatim>\<open>ini.Delete(section, key)\<close>; a missing
      section is left missing.\<close>
  "INI_Delete i sect k =
     (case i sect of
        None \<Rightarrow> i
      | Some kvmap \<Rightarrow> i(sect \<mapsto> kvmap(k := None)))"

section \<open>Schema registry\<close>

text \<open>
  \<^verbatim>\<open>type section struct { string; bool }\<close> and
  \<^verbatim>\<open>type key struct { string; overloadable bool; exportable bool }\<close>, with
  their methods.
\<close>

record Section =
  section_string :: string
  section_bool :: bool

definition Named :: "Section \<Rightarrow> bool" where
  "Named s = section_bool s"

definition Name :: "Section \<Rightarrow> string" where
  "Name s = section_string s"

record Key =
  key_string :: string
  overloadable :: bool
  exportable :: bool

definition Overloadable :: "Key \<Rightarrow> bool" where
  "Overloadable k = overloadable k"

definition Exportable :: "Key \<Rightarrow> bool" where
  "Exportable k = exportable k"

definition KeyName :: "Key \<Rightarrow> string" where
  \<comment> \<open>\<^verbatim>\<open>func (k key) Name() string\<close>\<close>
  "KeyName k = key_string k"

definition Remote :: Section where
  "Remote = \<lparr>section_string = ''Remote \"%s\"'', section_bool = True\<rparr>"

definition sectionLookup :: "string \<rightharpoonup> Section" where
  "sectionLookup = [''Remote'' \<mapsto> Remote]"

definition Username :: Key where
  "Username = \<lparr>key_string = ''username'', overloadable = False, exportable = False\<rparr>"

definition Password :: Key where
  "Password = \<lparr>key_string = ''password'', overloadable = False, exportable = False\<rparr>"

definition Salt :: Key where
  "Salt = \<lparr>key_string = ''salt'', overloadable = False, exportable = False\<rparr>"

definition RemoteUser :: Key where
  "RemoteUser = \<lparr>key_string = ''user'', overloadable = False, exportable = True\<rparr>"

definition ShowPrivate :: Key where
  "ShowPrivate = \<lparr>key_string = ''show-private'', overloadable = False, exportable = True\<rparr>"

definition RepositoryPattern :: Key where
  "RepositoryPattern =
     \<lparr>key_string = ''repository-pattern'', overloadable = False, exportable = True\<rparr>"

definition ReleasePattern :: Key where
  "ReleasePattern =
     \<lparr>key_string = ''release-pattern'', overloadable = True, exportable = True\<rparr>"

definition MilestonePattern :: Key where
  "MilestonePattern =
     \<lparr>key_string = ''milestone-pattern'', overloadable = True, exportable = True\<rparr>"

definition RepositoryBlacklisted :: Key where
  "RepositoryBlacklisted =
     \<lparr>key_string = ''repository-blacklisted'', overloadable = True, exportable = True\<rparr>"

definition DownloadUrl :: Key where
  "DownloadUrl = \<lparr>key_string = ''download-url'', overloadable = True, exportable = True\<rparr>"

definition keyLookup :: "string \<rightharpoonup> Key" where
  "keyLookup =
     [KeyName Username \<mapsto> Username,
      KeyName Password \<mapsto> Password,
      KeyName Salt \<mapsto> Salt,
      KeyName RemoteUser \<mapsto> RemoteUser,
      KeyName ShowPrivate \<mapsto> ShowPrivate,
      KeyName RepositoryPattern \<mapsto> RepositoryPattern,
      KeyName ReleasePattern \<mapsto> ReleasePattern,
      KeyName MilestonePattern \<mapsto> MilestonePattern,
      KeyName RepositoryBlacklisted \<mapsto> RepositoryBlacklisted,
      KeyName DownloadUrl \<mapsto> DownloadUrl]"

text \<open>
  The reverse lookups. A missing entry of a Go map of interfaces is the nil
  interface, here \<open>None\<close>. \<^verbatim>\<open>tokens[0]\<close> exists, since \<open>Split\<close> on a
  non-empty separator returns at least one piece (lemma \<open>Split_not_Nil\<close>).
\<close>

definition KeyLookup :: "string \<Rightarrow> Key option" where
  "KeyLookup k = (let tokens = Split k '':'' in keyLookup (hd tokens))"

definition SectionLookup :: "string \<Rightarrow> Section option" where
  "SectionLookup sect =
     (if \<not> Contains sect '' '' then sectionLookup sect
      else (let tokens = Split sect '' \"'' in sectionLookup (hd tokens)))"

definition ExtractSpecifier :: "string \<Rightarrow> string" where
  "ExtractSpecifier k =
     (let tokens = Split k '':'' in
      if length tokens > 1 then tokens ! 1
      else (let tokens = Split k ''\"'' in
            if length tokens > 2 then tokens ! 1 else []))"

definition buildSectionName :: "Section \<Rightarrow> string \<Rightarrow> string" where
  "buildSectionName sect n = Sprintf (Name sect) [n]"

definition buildOverloadedKey :: "Key \<Rightarrow> string \<Rightarrow> string" where
  "buildOverloadedKey k specifier = Sprintf ''%s:%s'' [KeyName k, specifier]"

section \<open>The configuration store\<close>

text \<open>
  \<^verbatim>\<open>type configuration struct { ini *goini.INI; homeDir string }\<close>. The
  pointer \<open>ini\<close> is nil (\<open>None\<close>) until a file has been parsed or
  \<open>ApplyChanges\<close> has run. The methods of goini read the fields of their
  receiver, so calling one on the nil pointer is Go's nil-pointer panic.
  \<^verbatim>\<open>log.Fatal\<close> ends the process with its message.
\<close>

datatype error = Fatal string | NilPointerDereference

record configuration =
  ini :: "SectionMap option"
  homeDir :: string

definition sectionGet ::
    "configuration \<Rightarrow> string \<Rightarrow> Key \<Rightarrow> string \<Rightarrow> error + (string \<times> bool)" where
  "sectionGet c sect k specifier =
     (case ini c of
        None \<Rightarrow> Inl NilPointerDereference
      | Some i \<Rightarrow>
          if Overloadable k \<and> specifier \<noteq> [] then
            (let (v, ok) = INI_SectionGet i sect (buildOverloadedKey k specifier)
             in if ok then Inr (v, True)
                else Inr (INI_SectionGet i sect (KeyName k)))
          else Inr (INI_SectionGet i sect (KeyName k)))"

definition SectionGet ::
    "configuration \<Rightarrow> Section \<Rightarrow> Key \<Rightarrow> string \<Rightarrow> error + (string \<times> bool)" where
  "SectionGet c sect k specifier =
     (if Named sect then Inl (Fatal ''Tried to retrieve a named section without a name'')
      else sectionGet c (Name sect) k specifier)"

definition NamedSectionGet ::
    "configuration \<Rightarrow> string \<Rightarrow> Section \<Rightarrow> Key \<Rightarrow> string \<Rightarrow> error + (string \<times> bool)" where
  "NamedSectionGet c n sect k specifier =
     (if \<not> Named sect then Inl (Fatal ''Tried to retrieve a non-named section with a name'')
      else sectionGet c (buildSectionName sect n) k specifier)"

text \<open>
  The accessors that return a mapping. The loops over a Go map that copy or
  filter its entries into a fresh map do not depend on the order of the
  iteration; the model gives the map they build.
\<close>

definition Section :: "configuration \<Rightarrow> Section \<Rightarrow> error + Kvmap" where
  "Section c sect =
     (if Named sect then Inl (Fatal ''Tried to retrieve a named section without a name'')
      else (case ini c of
              None \<Rightarrow> Inl NilPointerDereference
            | Some i \<Rightarrow>
                (case INI_GetKvmap i (Name sect) of
                   Some kvmap \<Rightarrow> Inr (\<lambda>k. kvmap k)
                 | None \<Rightarrow> Inr Map.empty)))"

definition SectionGetOverrides :: "configuration \<Rightarrow> Section \<Rightarrow> Key \<Rightarrow> error + Kvmap" where
  "SectionGetOverrides c sect k =
     (if Named sect then Inl (Fatal ''Tried to retrieve a named section without a name'')
      else (let sectionName = Name sect;
                keySpace = Sprintf ''%s:'' [KeyName k]
            in case ini c of
                 None \<Rightarrow> Inl NilPointerDereference
               | Some i \<Rightarrow>
                   (case INI_GetKvmap i sectionName of
                      Some kvmap \<Rightarrow> Inr (\<lambda>k. if HasPrefix k keySpace then kvmap k else None)
                    | None \<Rightarrow> Inr Map.empty)))"

text \<open>
  \<open>NamedSections\<close> appends the headers it keeps to a slice while it ranges
  over the map of all sections. Go leaves the order of that iteration open and
  visits every header once, so the slice is given as the set of its elements.
  The comparison \<open>realSection == section\<close> is between the looked-up
  interface value, nil for an unknown header, and the section passed in.
\<close>

definition NamedSections :: "configuration \<Rightarrow> Section \<Rightarrow> error + string set" where
  "NamedSections c sect =
     (case ini c of
        None \<Rightarrow> Inl NilPointerDereference
      | Some i \<Rightarrow>
          Inr {iniSection \<in> dom (INI_GetAll i). SectionLookup iniSection = Some sect})"

definition NamedSection :: "configuration \<Rightarrow> string \<Rightarrow> Section \<Rightarrow> error + Kvmap" where
  "NamedSection c n sect =
     (if \<not> Named sect then Inl (Fatal ''Tried to retrieve a non-named section with a name'')
      else (let sectionName = buildSectionName sect n
            in case ini c of
                 None \<Rightarrow> Inl NilPointerDereference
               | Some i \<Rightarrow>
                   (case INI_GetKvmap i sectionName of
                      Some kvmap \<Rightarrow> Inr (\<lambda>k. kvmap k)
                    | None \<Rightarrow> Inr Map.empty)))"

definition NamedSectionGetOverrides ::
    "configuration \<Rightarrow> string \<Rightarrow> Section \<Rightarrow> Key \<Rightarrow> error + Kvmap" where
  "NamedSectionGetOverrides c n sect k =
     (if \<not> Named sect then Inl (Fatal ''Tried to retrieve a non-named section with a name'')
      else (let sectionName = buildSectionName sect n;
                keySpace = Sprintf ''%s:'' [KeyName k]
            in case ini c of
                 None \<Rightarrow> Inl NilPointerDereference
               | Some i \<Rightarrow>
                   (case INI_GetKvmap i sectionName of
                      Some kvmap \<Rightarrow> Inr (\<lambda>k. if HasPrefix k keySpace then kvmap k else None)
                    | None \<Rightarrow> Inr Map.empty)))"

subsection \<open>The mutator\<close>

text \<open>
  The methods of \<^verbatim>\<open>Mutator\<close> change the store in place; the model returns
  the configuration with the new store.
\<close>

definition Delete :: "configuration \<Rightarrow> Section \<Rightarrow> error + configuration" where
  "Delete c sect =
     (if Named sect then Inl (Fatal ''Tried to delete a named section without a name'')
      else (let sectionName = Name sect
            in case ini c of
                 None \<Rightarrow> Inl NilPointerDereference
               | Some i \<Rightarrow> Inr (c\<lparr>ini := Some ((INI_GetAll i)(sectionName := None))\<rparr>)))"

definition SectionSet ::
    "configuration \<Rightarrow> Section \<Rightarrow> Key \<Rightarrow> string \<Rightarrow> string \<Rightarrow> error + configuration" where
  "SectionSet c sect k specifier v =
     (if Named sect then Inl (Fatal ''Tried to retrieve a named section without a name'')
      else (let sectionName = Name sect;
                keySpace = (if specifier \<noteq> [] then buildOverloadedKey k specifier
                            else KeyName k)
            in case ini c of
                 None \<Rightarrow> Inl NilPointerDereference
               | Some i \<Rightarrow> Inr (c\<lparr>ini := Some (INI_SectionSet i sectionName keySpace v)\<rparr>)))"

definition SectionDelete ::
    "configuration \<Rightarrow> Section \<Rightarrow> Key \<Rightarrow> string \<Rightarrow> error + configuration" where
  "SectionDelete c sect k specifier =
     (if Named sect then Inl (Fatal ''Tried to retrieve a named section without a name'')
      else (let sectionName = Name sect;
                keySpace = (if specifier \<noteq> [] then buildOverloadedKey k specifier
                            else KeyName k)
            in case ini c of
                 None \<Rightarrow> Inl NilPointerDereference
               | Some i \<Rightarrow> Inr (c\<lparr>ini := Some (INI_Delete i sectionName keySpace)\<rparr>)))"

definition NamedDelete :: "configuration \<Rightarrow> string \<Rightarrow> Section \<Rightarrow> error + configuration" where
  "NamedDelete c n sect =
     (if \<not> Named sect then Inl (Fatal ''Tried to delete a non-named section with a name'')
      else (let sectionName = buildSectionName sect n
            in case ini c of
                 None \<Rightarrow> Inl NilPointerDereference
               | Some i \<Rightarrow> Inr (c\<lparr>ini := Some ((INI_GetAll i)(sectionName := None))\<rparr>)))"

definition NamedSectionSet ::
    "configuration \<Rightarrow> string \<Rightarrow> Section \<Rightarrow> Key \<Rightarrow> string \<Rightarrow> string \<Rightarrow> error + configuration" where
  "NamedSectionSet c n sect k specifier v =
     (if \<not> Named sect then Inl (Fatal ''Tried to retrieve a non-named section with a name'')
      else (let sectionName = buildSectionName sect n;
                keySpace = (if specifier \<noteq> [] then buildOverloadedKey k specifier
                            else KeyName k)
            in case ini c of
                 None \<Rightarrow> Inl NilPointerDereference
               | Some i \<Rightarrow> Inr (c\<lparr>ini := Some (INI_SectionSet i sectionName keySpace v)\<rparr>)))"

definition NamedSectionDelete ::
    "configuration \<Rightarrow> string \<Rightarrow> Section \<Rightarrow> Key \<Rightarrow> string \<Rightarrow> error + configuration" where
  "NamedSectionDelete c n sect k specifier =
     (if \<not> Named sect then Inl (Fatal ''Tried to retrieve a non-named section with a name'')
      else (let sectionName = buildSectionName sect n;
                keySpace = (if specifier \<noteq> [] then buildOverloadedKey k specifier
                            else KeyName k)
            in case ini c of
                 None \<Rightarrow> Inl NilPointerDereference
               | Some i \<Rightarrow> Inr (c\<lparr>ini := Some (INI_Delete i sectionName keySpace)\<rparr>)))"

text \<open>
  The function handed to \<open>ApplyChanges\<close> receives the configuration as a
  \<^verbatim>\<open>Mutator\<close>, so what it can do to the store is a sequence of calls of the
  six methods above: a batch of edits. A call that ends in \<^verbatim>\<open>log.Fatal\<close>
  ends the process, and with it the batch.
\<close>

datatype edit =
    DoDelete Section
  | DoSectionSet Section Key string string
  | DoSectionDelete Section Key string
  | DoNamedDelete string Section
  | DoNamedSectionSet string Section Key string string
  | DoNamedSectionDelete string Section Key string

fun apply_edit :: "edit \<Rightarrow> configuration \<Rightarrow> error + configuration" where
  "apply_edit (DoDelete sect) c = Delete c sect"
| "apply_edit (DoSectionSet sect k specifier v) c = SectionSet c sect k specifier v"
| "apply_edit (DoSectionDelete sect k specifier) c = SectionDelete c sect k specifier"
| "apply_edit (DoNamedDelete n sect) c = NamedDelete c n sect"
| "apply_edit (DoNamedSectionSet n sect k specifier v) c = NamedSectionSet c n sect k specifier v"
| "apply_edit (DoNamedSectionDelete n sect k specifier) c = NamedSectionDelete c n sect k specifier"

fun apply_edits :: "edit list \<Rightarrow> configuration \<Rightarrow> error + configuration" where
  "apply_edits [] c = Inr c"
| "apply_edits (e # es) c =
     (case apply_edit e c of Inl err \<Rightarrow> Inl err | Inr c' \<Rightarrow> apply_edits es c')"

text \<open>
  Two notions for reasoning about batches. An edit is well-kinded when its
  method is the one for the kind of its section, so that it does not end in
  \<^verbatim>\<open>log.Fatal\<close>. The target of an edit is the section header it works on
  and the effective key it sets or deletes there (\<open>None\<close> for the deletion of
  the whole section); an edit touches an entry when the entry lies in its
  target.
\<close>

fun well_kinded :: "edit \<Rightarrow> bool" where
  "well_kinded (DoDelete sect) = (\<not> Named sect)"
| "well_kinded (DoSectionSet sect k specifier v) = (\<not> Named sect)"
| "well_kinded (DoSectionDelete sect k specifier) = (\<not> Named sect)"
| "well_kinded (DoNamedDelete n sect) = Named sect"
| "well_kinded (DoNamedSectionSet n sect k specifier v) = Named sect"
| "well_kinded (DoNamedSectionDelete n sect k specifier) = Named sect"



section \<open>Persistence\<close>

text \<open>
  Paths, as on Unix. \<^verbatim>\<open>filepath.Clean\<close> works on the elements between the
  slashes: it drops empty elements and \<open>.\<close>, lets \<open>..\<close> remove the element
  before it, drops a \<open>..\<close> that would climb above the root and keeps one that
  leads a relative path; the empty result is \<open>.\<close>. \<^verbatim>\<open>filepath.Join\<close>
  joins the elements from the first non-empty one with slashes and cleans the
  result; \<^verbatim>\<open>filepath.Dir\<close> cleans what stands before the last element.
\<close>

fun strings_Join :: "string list \<Rightarrow> string \<Rightarrow> string" where
  "strings_Join [] sep = []"
| "strings_Join [e] sep = e"
| "strings_Join (e # f # es) sep = e @ sep @ strings_Join (f # es) sep"

fun clean_elements :: "bool \<Rightarrow> string list \<Rightarrow> string list \<Rightarrow> string list" where
  "clean_elements rooted out [] = rev out"
| "clean_elements rooted out (e # es) =
     (if e = [] \<or> e = ''.'' then clean_elements rooted out es
      else if e = ''..'' then
        (case out of
           [] \<Rightarrow> if rooted then clean_elements rooted out es
                 else clean_elements rooted [''..''] es
         | d # ds \<Rightarrow> if d = ''..'' then clean_elements rooted (''..'' # out) es
                     else clean_elements rooted ds es)
      else clean_elements rooted (e # out) es)"

definition Clean :: "string \<Rightarrow> string" where
  "Clean path =
     (if path = [] then ''.''
      else (let rooted = (hd path = CHR ''/'');
                body = strings_Join (clean_elements rooted [] (Split path ''/'')) ''/''
            in if rooted then CHR ''/'' # body
               else if body = [] then ''.'' else body))"

definition filepath_Join :: "string \<Rightarrow> string \<Rightarrow> string" where
  "filepath_Join a b =
     (if a \<noteq> [] then Clean (a @ ''/'' @ b)
      else if b \<noteq> [] then Clean b
      else [])"

definition filepath_Dir :: "string \<Rightarrow> string" where
  "filepath_Dir path = Clean (rev (dropWhile (\<lambda>c. c \<noteq> CHR ''/'') (rev path)))"

text \<open>
  The file system as \<open>NewConfiguration\<close> and \<open>store\<close> see it: the
  directories and files that exist, and the paths at which the operating system
  refuses \<^verbatim>\<open>os.MkdirAll\<close> and \<^verbatim>\<open>os.Create\<close> for a reason of its own
  (permissions, a full disk). A file is the sequence of the blocks written to it
  since it was created or truncated. A write may fail: \<open>write_fails\<close> gives,
  for a path at which it does, the blocks that still reach the file before the
  error. \<open>writes\<close> counts the calls of \<^verbatim>\<open>ini.Write\<close>, the only writer of
  the package.
\<close>

record 'f filesystem =
  dirs :: "string set"
  files :: "string \<rightharpoonup> 'f list"
  mkdir_denied :: "string set"
  create_denied :: "string set"
  write_fails :: "string \<rightharpoonup> 'f list"
  writes :: nat

definition os_Stat :: "'f filesystem \<Rightarrow> string \<Rightarrow> bool" where
  \<comment> \<open>\<^verbatim>\<open>_, err := os.Stat(path)\<close>; the value is \<open>err == nil\<close>.\<close>
  "os_Stat fs path = (path \<in> dirs fs \<or> path \<in> dom (files fs))"

definition os_MkdirAll :: "'f filesystem \<Rightarrow> string \<Rightarrow> 'f filesystem option" where
  \<comment> \<open>\<open>None\<close> is a non-nil error: the path or the directory that is to hold it
      is a regular file, or the system refuses. The missing parents are created
      with the directory; the model records the directory itself.\<close>
  "os_MkdirAll fs path =
     (if path \<in> mkdir_denied fs \<or> path \<in> dom (files fs) \<or>
         filepath_Dir path \<in> dom (files fs) then None
      else Some (fs\<lparr>dirs := insert path (dirs fs)\<rparr>))"

definition os_Create :: "'f filesystem \<Rightarrow> string \<Rightarrow> 'f filesystem option" where
  \<comment> \<open>Creates the file or truncates it. \<open>None\<close> is a non-nil error: the path
      is a directory, the directory that is to hold it does not exist (or is a
      regular file), or the system refuses.\<close>
  "os_Create fs path =
     (if path \<in> create_denied fs \<or> path \<in> dirs fs \<or> filepath_Dir path \<notin> dirs fs then None
      else Some (fs\<lparr>files := (files fs)(path \<mapsto> [])\<rparr>))"

definition file_Write :: "'f filesystem \<Rightarrow> string \<Rightarrow> 'f \<Rightarrow> 'f filesystem \<times> bool" where
  \<comment> \<open>One call of \<^verbatim>\<open>ini.Write(file)\<close> on the open file at \<open>path\<close>: the new
      file system and whether the returned error is nil.\<close>
  "file_Write fs path block =
     (let content = (case files fs path of None \<Rightarrow> [] | Some bs \<Rightarrow> bs)
      in case write_fails fs path of
           None \<Rightarrow>
             (fs\<lparr>files := (files fs)(path \<mapsto> content @ [block]), writes := Suc (writes fs)\<rparr>,
              True)
         | Some partial \<Rightarrow>
             (fs\<lparr>files := (files fs)(path \<mapsto> content @ partial), writes := Suc (writes fs)\<rparr>,
              False))"

text \<open>
  The text format of the file belongs to goini, whose parser and printer are not
  among the sources at hand. They are parameters of the model: \<open>ParseFile\<close>
  gives the store that \<^verbatim>\<open>ini.ParseFile\<close> builds from the content of a file
  (\<open>None\<close> when it returns an error), \<open>Write\<close> the block that
  \<^verbatim>\<open>ini.Write\<close> emits for a store. \<open>store\<close> calls
  \<^verbatim>\<open>c.ini.Write(file)\<close> as a statement: the error it returns is dropped, and
  \<open>store\<close> goes on to print its message and return.
\<close>

definition NewConfiguration ::
    "('f list \<Rightarrow> SectionMap option) \<Rightarrow> 'f filesystem \<Rightarrow> string \<Rightarrow> error + configuration" where
  "NewConfiguration ParseFile fs home =
     (let grmPath = filepath_Join home ''github-release-monitor'';
          configPath = filepath_Join grmPath ''config'';
          configuration = \<lparr>ini = None, homeDir = home\<rparr>
      in if \<not> os_Stat fs configPath then Inr configuration
         else (case (case files fs configPath of
                       None \<Rightarrow> None
                     | Some content \<Rightarrow> ParseFile content) of
                 None \<Rightarrow> Inl (Fatal ''Could not read config file'')
               | Some i \<Rightarrow> Inr (configuration\<lparr>ini := Some i\<rparr>)))"

definition store ::
    "(SectionMap \<Rightarrow> 'f) \<Rightarrow> configuration \<Rightarrow> 'f filesystem \<Rightarrow> error + 'f filesystem" where
  "store Write c fs =
     (case ini c of
        None \<Rightarrow> Inr fs
      | Some i \<Rightarrow>
          (let grmPath = filepath_Join (homeDir c) ''github-release-monitor'';
               configPath = filepath_Join grmPath ''config''
           in case (if \<not> os_Stat fs grmPath then os_MkdirAll fs grmPath else Some fs) of
                None \<Rightarrow> Inl (Fatal ''Could not create config directory'')
              | Some fs1 \<Rightarrow>
                  (case os_Create fs1 configPath of
                     None \<Rightarrow> Inl (Fatal ''Could not create config file'')
                   | Some fs2 \<Rightarrow>
                       (let (fs3, written) = file_Write fs2 configPath (Write i)
                        in Inr fs3))))"

definition ApplyChanges ::
    "(SectionMap \<Rightarrow> 'f) \<Rightarrow> configuration \<Rightarrow> 'f filesystem \<Rightarrow>
     (configuration \<Rightarrow> error + configuration) \<Rightarrow> error + (configuration \<times> 'f filesystem)" where
  "ApplyChanges Write c fs applyFunction =
     (let c1 = (if ini c = None then c\<lparr>ini := Some INI_New\<rparr> else c)
      in case applyFunction c1 of
           Inl err \<Rightarrow> Inl err
         | Inr c2 \<Rightarrow>
             (case store Write c2 fs of
                Inl err \<Rightarrow> Inl err
              | Inr fs' \<Rightarrow> Inr (c2, fs')))"

section \<open>Export\<close>

definition export :: "configuration \<Rightarrow> string \<Rightarrow> Section \<Rightarrow> error + Kvmap" where
  \<comment> \<open>Modelled from the spec: the export command is not among the sources at
      hand. \<^emph>\<open>For the given named-section instance, write only exportable keys
      (and all of their specifier overrides) to an external artifact;
      non-exportable keys are always omitted.\<close> The key of an entry, bare or
      \<open>key:specifier\<close>, is resolved by \<open>KeyLookup\<close>.\<close>
  "export c n sect =
     (case NamedSection c n sect of
        Inl err \<Rightarrow> Inl err
      | Inr kvmap \<Rightarrow>
          Inr (\<lambda>k. case KeyLookup k of
                      None \<Rightarrow> None
                    | Some key \<Rightarrow> if Exportable key then kvmap k else None))"

section \<open>The persistence adapter of the specification\<close>



section \<open>Encryption service\<close>




section \<open>Basic facts\<close>

lemma buildOverloadedKey_eq: "buildOverloadedKey k s = KeyName k @ '':'' @ s"
  by (simp add: buildOverloadedKey_def)

lemma buildSectionName_Remote: "buildSectionName Remote n = ''Remote \"'' @ n @ ''\"''"
  by (simp add: buildSectionName_def Remote_def Name_def)

lemma Remote_fields:
  "section_bool Remote = True" "section_string Remote = ''Remote \"%s\"''"
  by (simp_all add: Remote_def)

section \<open>Resolution of keys\<close>

lemma sectionGet_overloaded_hit:
  assumes "ini c = Some i" "Overloadable K" "S \<noteq> []"
    and "INI_SectionGet i sn (KeyName K @ '':'' @ S) = (v, True)"
  shows "sectionGet c sn K S = Inr (v, True)"
  using assms by (simp add: sectionGet_def buildOverloadedKey_eq)

lemma sectionGet_overloaded_miss:
  assumes "ini c = Some i"
    and "snd (INI_SectionGet i sn (KeyName K @ '':'' @ S)) = False"
  shows "sectionGet c sn K S = Inr (INI_SectionGet i sn (KeyName K))"
  using assms
  by (cases "INI_SectionGet i sn (KeyName K @ '':'' @ S)")
     (simp add: sectionGet_def buildOverloadedKey_eq)

lemma sectionGet_bare:
  assumes "ini c = Some i" and "\<not> Overloadable K \<or> S = []"
  shows "sectionGet c sn K S = Inr (INI_SectionGet i sn (KeyName K))"
  using assms by (auto simp add: sectionGet_def)

text \<open>
  C1. On an initialised store, for an overloadable key \<open>K\<close> and a non-empty
  specifier \<open>S\<close>: when the section holds \<open>v\<close> under the effective key
  \<open>K:S\<close>, \<open>SectionGet\<close> and \<open>NamedSectionGet\<close> return \<open>(v, true)\<close>,
  whatever is stored under the bare \<open>K\<close>; when \<open>K:S\<close> is absent they return
  the bare entry of \<open>K\<close>; and with the empty specifier they return the bare
  entry of \<open>K\<close> alone.
\<close>

theorem overloaded_key_resolution:
  assumes "ini c = Some i" and "Overloadable K" and "S \<noteq> []"
  shows "(\<not> Named s \<longrightarrow>
            (\<forall>v. INI_SectionGet i (Name s) (KeyName K @ '':'' @ S) = (v, True) \<longrightarrow>
                 SectionGet c s K S = Inr (v, True)) \<and>
            (snd (INI_SectionGet i (Name s) (KeyName K @ '':'' @ S)) = False \<longrightarrow>
                 SectionGet c s K S = Inr (INI_SectionGet i (Name s) (KeyName K))) \<and>
            SectionGet c s K [] = Inr (INI_SectionGet i (Name s) (KeyName K))) \<and>
         (Named s \<longrightarrow>
            (\<forall>v. INI_SectionGet i (buildSectionName s n) (KeyName K @ '':'' @ S) = (v, True) \<longrightarrow>
                 NamedSectionGet c n s K S = Inr (v, True)) \<and>
            (snd (INI_SectionGet i (buildSectionName s n) (KeyName K @ '':'' @ S)) = False \<longrightarrow>
                 NamedSectionGet c n s K S = Inr (INI_SectionGet i (buildSectionName s n) (KeyName K))) \<and>
            NamedSectionGet c n s K [] = Inr (INI_SectionGet i (buildSectionName s n) (KeyName K)))"
  using assms
  by (simp add: SectionGet_def NamedSectionGet_def sectionGet_overloaded_hit
        sectionGet_overloaded_miss sectionGet_bare)

theorem overloaded_key_resolution_witness:
  "Overloadable ReleasePattern \<and>
   SectionGet
     \<lparr>ini = Some [''core'' \<mapsto> [''release-pattern'' \<mapsto> ''v.*'', ''release-pattern:repo'' \<mapsto> ''r.*'']],
      homeDir = ''/home/u''\<rparr>
     \<lparr>section_string = ''core'', section_bool = False\<rparr> ReleasePattern ''repo'' = Inr (''r.*'', True) \<and>
   SectionGet
     \<lparr>ini = Some [''core'' \<mapsto> [''release-pattern'' \<mapsto> ''v.*'', ''release-pattern:repo'' \<mapsto> ''r.*'']],
      homeDir = ''/home/u''\<rparr>
     \<lparr>section_string = ''core'', section_bool = False\<rparr> ReleasePattern [] = Inr (''v.*'', True) \<and>
   NamedSectionGet
     \<lparr>ini = Some [''Remote \"acme\"'' \<mapsto> [''release-pattern'' \<mapsto> ''v.*'']], homeDir = ''/home/u''\<rparr>
     ''acme'' Remote ReleasePattern ''repo'' = Inr (''v.*'', True)"
  using
    overloaded_key_resolution
      [of "\<lparr>ini = Some [''core'' \<mapsto> [''release-pattern'' \<mapsto> ''v.*'', ''release-pattern:repo'' \<mapsto> ''r.*'']],
           homeDir = ''/home/u''\<rparr>"
          "[''core'' \<mapsto> [''release-pattern'' \<mapsto> ''v.*'', ''release-pattern:repo'' \<mapsto> ''r.*'']]"
          ReleasePattern "''repo''" "\<lparr>section_string = ''core'', section_bool = False\<rparr>"]
    overloaded_key_resolution
      [of "\<lparr>ini = Some [''Remote \"acme\"'' \<mapsto> [''release-pattern'' \<mapsto> ''v.*'']], homeDir = ''/home/u''\<rparr>"
          "[''Remote \"acme\"'' \<mapsto> [''release-pattern'' \<mapsto> ''v.*'']]"
          ReleasePattern "''repo''" Remote "''acme''"]
  by (auto simp add: ReleasePattern_def Overloadable_def KeyName_def Named_def Name_def
        INI_SectionGet_def buildSectionName_Remote Remote_fields)

text \<open>Keys that are not overloadable.\<close>

lemma sectionGet_not_overloadable:
  "\<not> Overloadable K \<Longrightarrow> sectionGet c sn K s1 = sectionGet c sn K s2"
  by (simp add: sectionGet_def split: option.splits)

text \<open>
  C7. For a key \<open>K\<close> that is not overloadable, \<open>SectionGet\<close> and
  \<open>NamedSectionGet\<close> give the same result for any two specifiers, and on an
  initialised store that result is the bare entry of \<open>K\<close>: entries under
  \<open>K:specifier\<close> are never read.
\<close>

theorem specifier_ignored_for_plain_key:
  assumes "\<not> Overloadable K"
  shows "SectionGet c s K s1 = SectionGet c s K s2 \<and>
         NamedSectionGet c n s K s1 = NamedSectionGet c n s K s2 \<and>
         (\<forall>i. ini c = Some i \<longrightarrow>
            (\<not> Named s \<longrightarrow> SectionGet c s K s1 = Inr (INI_SectionGet i (Name s) (KeyName K))) \<and>
            (Named s \<longrightarrow> NamedSectionGet c n s K s1 =
                          Inr (INI_SectionGet i (buildSectionName s n) (KeyName K))))"
  using assms
  by (simp add: SectionGet_def NamedSectionGet_def sectionGet_not_overloadable [of K c _ s1 s2]
        sectionGet_bare)

theorem specifier_ignored_for_plain_key_witness:
  "\<not> Overloadable Username \<and>
   NamedSectionGet
     \<lparr>ini = Some [''Remote \"acme\"'' \<mapsto> [''username'' \<mapsto> ''bob'', ''username:repo'' \<mapsto> ''eve'']],
      homeDir = ''/home/u''\<rparr>
     ''acme'' Remote Username ''repo'' = Inr (''bob'', True) \<and>
   NamedSectionGet
     \<lparr>ini = Some [''Remote \"acme\"'' \<mapsto> [''username'' \<mapsto> ''bob'', ''username:repo'' \<mapsto> ''eve'']],
      homeDir = ''/home/u''\<rparr>
     ''acme'' Remote Username [] = Inr (''bob'', True)"
  using
    specifier_ignored_for_plain_key
      [of Username
          "\<lparr>ini = Some [''Remote \"acme\"'' \<mapsto> [''username'' \<mapsto> ''bob'', ''username:repo'' \<mapsto> ''eve'']],
           homeDir = ''/home/u''\<rparr>"
          Remote "''repo''" "[]" "''acme''"]
  by (auto simp add: Username_def Overloadable_def KeyName_def Named_def Remote_fields
        INI_SectionGet_def buildSectionName_Remote)

section \<open>Setting a key with a specifier\<close>

lemma INI_SectionGet_SectionSet_same:
  "INI_SectionGet (INI_SectionSet i sn k v) sn k = (v, True)"
  by (simp add: INI_SectionGet_def INI_SectionSet_def split: option.splits)

lemma INI_SectionGet_SectionSet_other:
  "sn' \<noteq> sn \<or> k' \<noteq> k \<Longrightarrow>
   INI_SectionGet (INI_SectionSet i sn k v) sn' k' = INI_SectionGet i sn' k'"
  by (auto simp add: INI_SectionGet_def INI_SectionSet_def split: option.splits)

text \<open>
  C10. For a key \<open>K\<close> that is not overloadable and a non-empty specifier
  \<open>S\<close>, on an initialised store, \<open>SectionSet\<close> and \<open>NamedSectionSet\<close>
  store \<open>v\<close> under the effective key \<open>K:S\<close> and change no other entry, the
  bare entry of \<open>K\<close> included; and every get of \<open>K\<close> on that section, with
  any specifier, returns afterwards what it returned before: the new entry is
  never what a get of \<open>K\<close> reads.
\<close>

theorem qualified_set_of_plain_key_unreachable:
  assumes "\<not> Overloadable K" and "S \<noteq> []" and "ini c = Some i"
  shows "(\<not> Named s \<longrightarrow>
           (\<exists>c' i'. SectionSet c s K S v = Inr c' \<and> ini c' = Some i' \<and>
              INI_SectionGet i' (Name s) (KeyName K @ '':'' @ S) = (v, True) \<and>
              (\<forall>sn k. sn \<noteq> Name s \<or> k \<noteq> KeyName K @ '':'' @ S \<longrightarrow>
                  INI_SectionGet i' sn k = INI_SectionGet i sn k) \<and>
              INI_SectionGet i' (Name s) (KeyName K) = INI_SectionGet i (Name s) (KeyName K) \<and>
              (\<forall>sp. SectionGet c' s K sp = SectionGet c s K sp))) \<and>
         (Named s \<longrightarrow>
           (\<exists>c' i'. NamedSectionSet c n s K S v = Inr c' \<and> ini c' = Some i' \<and>
              INI_SectionGet i' (buildSectionName s n) (KeyName K @ '':'' @ S) = (v, True) \<and>
              (\<forall>sn k. sn \<noteq> buildSectionName s n \<or> k \<noteq> KeyName K @ '':'' @ S \<longrightarrow>
                  INI_SectionGet i' sn k = INI_SectionGet i sn k) \<and>
              INI_SectionGet i' (buildSectionName s n) (KeyName K) =
                INI_SectionGet i (buildSectionName s n) (KeyName K) \<and>
              (\<forall>sp. NamedSectionGet c' n s K sp = NamedSectionGet c n s K sp)))"
proof (intro conjI impI)
  assume u: "\<not> Named s"
  let ?i' = "INI_SectionSet i (Name s) (KeyName K @ '':'' @ S) v"
  let ?c' = "c\<lparr>ini := Some ?i'\<rparr>"
  have set: "SectionSet c s K S v = Inr ?c'"
    using u assms by (simp add: SectionSet_def buildOverloadedKey_eq)
  have bare: "INI_SectionGet ?i' (Name s) (KeyName K) = INI_SectionGet i (Name s) (KeyName K)"
    by (rule INI_SectionGet_SectionSet_other) simp
  have get: "SectionGet ?c' s K sp = SectionGet c s K sp" for sp
    using u assms(1,3) bare by (simp add: SectionGet_def sectionGet_bare)
  show "\<exists>c' i'. SectionSet c s K S v = Inr c' \<and> ini c' = Some i' \<and>
              INI_SectionGet i' (Name s) (KeyName K @ '':'' @ S) = (v, True) \<and>
              (\<forall>sn k. sn \<noteq> Name s \<or> k \<noteq> KeyName K @ '':'' @ S \<longrightarrow>
                  INI_SectionGet i' sn k = INI_SectionGet i sn k) \<and>
              INI_SectionGet i' (Name s) (KeyName K) = INI_SectionGet i (Name s) (KeyName K) \<and>
              (\<forall>sp. SectionGet c' s K sp = SectionGet c s K sp)"
    using set bare get
    by (intro exI [of _ ?c'] exI [of _ ?i'])
       (simp add: INI_SectionGet_SectionSet_same INI_SectionGet_SectionSet_other)
next
  assume nm: "Named s"
  let ?sn = "buildSectionName s n"
  let ?i' = "INI_SectionSet i ?sn (KeyName K @ '':'' @ S) v"
  let ?c' = "c\<lparr>ini := Some ?i'\<rparr>"
  have set: "NamedSectionSet c n s K S v = Inr ?c'"
    using nm assms by (simp add: NamedSectionSet_def buildOverloadedKey_eq)
  have bare: "INI_SectionGet ?i' ?sn (KeyName K) = INI_SectionGet i ?sn (KeyName K)"
    by (rule INI_SectionGet_SectionSet_other) simp
  have get: "NamedSectionGet ?c' n s K sp = NamedSectionGet c n s K sp" for sp
    using nm assms(1,3) bare by (simp add: NamedSectionGet_def sectionGet_bare)
  show "\<exists>c' i'. NamedSectionSet c n s K S v = Inr c' \<and> ini c' = Some i' \<and>
              INI_SectionGet i' ?sn (KeyName K @ '':'' @ S) = (v, True) \<and>
              (\<forall>sn k. sn \<noteq> ?sn \<or> k \<noteq> KeyName K @ '':'' @ S \<longrightarrow>
                  INI_SectionGet i' sn k = INI_SectionGet i sn k) \<and>
              INI_SectionGet i' ?sn (KeyName K) = INI_SectionGet i ?sn (KeyName K) \<and>
              (\<forall>sp. NamedSectionGet c' n s K sp = NamedSectionGet c n s K sp)"
    using set bare get
    by (intro exI [of _ ?c'] exI [of _ ?i'])
       (simp add: INI_SectionGet_SectionSet_same INI_SectionGet_SectionSet_other)
qed

theorem qualified_set_of_plain_key_unreachable_witness:
  "\<not> Overloadable Username \<and>
   NamedSectionSet \<lparr>ini = Some [''Remote \"acme\"'' \<mapsto> [''username'' \<mapsto> ''bob'']], homeDir = ''/home/u''\<rparr>
     ''acme'' Remote Username ''repo'' ''eve'' =
   Inr \<lparr>ini = Some [''Remote \"acme\"'' \<mapsto> [''username'' \<mapsto> ''bob'', ''username:repo'' \<mapsto> ''eve'']],
        homeDir = ''/home/u''\<rparr> \<and>
   NamedSectionGet
     \<lparr>ini = Some [''Remote \"acme\"'' \<mapsto> [''username'' \<mapsto> ''bob'', ''username:repo'' \<mapsto> ''eve'']],
      homeDir = ''/home/u''\<rparr> ''acme'' Remote Username ''repo'' = Inr (''bob'', True)"
  using
    qualified_set_of_plain_key_unreachable
      [of Username "''repo''"
          "\<lparr>ini = Some [''Remote \"acme\"'' \<mapsto> [''username'' \<mapsto> ''bob'']], homeDir = ''/home/u''\<rparr>"
          "[''Remote \"acme\"'' \<mapsto> [''username'' \<mapsto> ''bob'']]" Remote "''eve''" "''acme''"]
  by (auto simp add: Username_def Overloadable_def KeyName_def Named_def Remote_fields
        INI_SectionGet_def INI_SectionSet_def buildSectionName_Remote NamedSectionSet_def
        NamedSectionGet_def sectionGet_def buildOverloadedKey_def)

section \<open>Splitting strings\<close>

lemma Split_not_Nil: "sep \<noteq> [] \<Longrightarrow> Split s sep \<noteq> []"
  by (subst Split.simps) (simp split: list.splits)

lemma Split_char_absent: "c \<notin> set a \<Longrightarrow> Split a [c] = [a]"
proof (induction a)
  case Nil
  show ?case by (subst Split.simps) simp
next
  case (Cons x a)
  then show ?case by (subst Split.simps) simp
qed

lemma Split_char_first: "c \<notin> set a \<Longrightarrow> Split (a @ c # r) [c] = a # Split r [c]"
proof (induction a)
  case Nil
  show ?case by (subst Split.simps) simp
next
  case (Cons x a)
  then show ?case by (subst Split.simps) simp
qed


lemma ExtractSpecifier_instance:
  assumes "CHR '':'' \<notin> set n" and "CHR 0x22 \<notin> set n"
  shows "ExtractSpecifier (buildSectionName Remote n) = n"
proof -
  have colon: "Split (''Remote \"'' @ n @ ''\"'') '':'' = [''Remote \"'' @ n @ ''\"'']"
    using assms(1) by (intro Split_char_absent) simp
  have "Split (''Remote \"'' @ n @ ''\"'') ''\"'' = ''Remote '' # Split (n @ ''\"'') ''\"''"
    using Split_char_first [of "CHR 0x22" "''Remote ''" "n @ ''\"''"] by simp
  also have "Split (n @ ''\"'') ''\"'' = n # Split [] ''\"''"
    using assms(2) Split_char_first [of "CHR 0x22" n "[]"] by simp
  also have "Split [] ''\"'' = [[]]"
    by (subst Split.simps) simp
  finally have quote: "Split (''Remote \"'' @ n @ ''\"'') ''\"'' = [''Remote '', n, []]" .
  show ?thesis
    by (simp add: ExtractSpecifier_def Let_def buildSectionName_Remote colon quote
          del: append.simps)
qed

section \<open>Enumerating named sections\<close>







section \<open>Overrides of a key\<close>

text \<open>
  C6 as stated fails: the loop stores \<open>overrides[k] = v\<close> under the stored key
  \<open>k\<close>, so the mapping is keyed by \<open>K:S\<close> and has no entry under the
  specifier \<open>S\<close>.
\<close>

theorem overrides_keyed_by_specifier_counterexample:
  "SectionGetOverrides
     \<lparr>ini = Some [''core'' \<mapsto> [''release-pattern'' \<mapsto> ''v.*'', ''release-pattern:repo'' \<mapsto> ''r.*'']],
      homeDir = ''/home/u''\<rparr>
     \<lparr>section_string = ''core'', section_bool = False\<rparr> ReleasePattern =
     Inr [''release-pattern:repo'' \<mapsto> ''r.*''] \<and>
   SectionGetOverrides
     \<lparr>ini = Some [''core'' \<mapsto> [''release-pattern'' \<mapsto> ''v.*'', ''release-pattern:repo'' \<mapsto> ''r.*'']],
      homeDir = ''/home/u''\<rparr>
     \<lparr>section_string = ''core'', section_bool = False\<rparr> ReleasePattern \<noteq>
     Inr [''repo'' \<mapsto> ''r.*'']"
proof -
  have "SectionGetOverrides
     \<lparr>ini = Some [''core'' \<mapsto> [''release-pattern'' \<mapsto> ''v.*'', ''release-pattern:repo'' \<mapsto> ''r.*'']],
      homeDir = ''/home/u''\<rparr>
     \<lparr>section_string = ''core'', section_bool = False\<rparr> ReleasePattern =
     Inr [''release-pattern:repo'' \<mapsto> ''r.*'']"
    by (auto simp add: SectionGetOverrides_def Named_def Name_def KeyName_def ReleasePattern_def
          INI_GetKvmap_def HasPrefix_def fun_eq_iff)
  moreover have "[''release-pattern:repo'' \<mapsto> ''r.*''] \<noteq> [''repo'' \<mapsto> ''r.*'']"
    by (simp add: fun_eq_iff) (rule exI [of _ "''repo''"], simp)
  ultimately show ?thesis by simp
qed

text \<open>
  C6, amended. On an initialised store the mapping returned by
  \<open>SectionGetOverrides\<close> and \<open>NamedSectionGetOverrides\<close> holds exactly the
  entries of the section's raw mapping (what \<open>Section\<close> and \<open>NamedSection\<close>
  return) whose stored key starts with \<open>K:\<close>, each under its full stored key
  \<open>K:S\<close> and with its value.
\<close>

theorem overrides_keep_stored_keys:
  assumes "ini c = Some i"
  shows "(\<not> Named s \<longrightarrow>
           (\<exists>raw ov. Section c s = Inr raw \<and> SectionGetOverrides c s K = Inr ov \<and>
              (\<forall>k. ov k = (if prefix (KeyName K @ '':'') k then raw k else None)) \<and>
              (\<forall>S. ov (KeyName K @ '':'' @ S) = raw (KeyName K @ '':'' @ S)))) \<and>
         (Named s \<longrightarrow>
           (\<exists>raw ov. NamedSection c n s = Inr raw \<and> NamedSectionGetOverrides c n s K = Inr ov \<and>
              (\<forall>k. ov k = (if prefix (KeyName K @ '':'') k then raw k else None)) \<and>
              (\<forall>S. ov (KeyName K @ '':'' @ S) = raw (KeyName K @ '':'' @ S))))"
  using assms
  by (simp add: Section_def SectionGetOverrides_def NamedSection_def
        NamedSectionGetOverrides_def INI_GetKvmap_def HasPrefix_def Let_def
        split: option.splits)

theorem overrides_keep_stored_keys_witness:
  "NamedSectionGetOverrides
     \<lparr>ini = Some [''Remote \"acme\"'' \<mapsto> [''download-url'' \<mapsto> ''u'', ''download-url:repo'' \<mapsto> ''w'']],
      homeDir = ''/home/u''\<rparr> ''acme'' Remote DownloadUrl = Inr [''download-url:repo'' \<mapsto> ''w'']"
proof -
  let ?kv = "[''download-url'' \<mapsto> ''u'', ''download-url:repo'' \<mapsto> ''w'']"
  let ?i = "[''Remote \"acme\"'' \<mapsto> ?kv]"
  let ?c = "\<lparr>ini = Some ?i, homeDir = ''/home/u''\<rparr>"
  have nm: "Named Remote" by (simp add: Named_def Remote_fields)
  from overrides_keep_stored_keys [of ?c ?i Remote DownloadUrl "''acme''"] nm
  obtain raw ov where raw: "NamedSection ?c ''acme'' Remote = Inr raw"
    and ov: "NamedSectionGetOverrides ?c ''acme'' Remote DownloadUrl = Inr ov"
    and char: "\<And>k. ov k = (if prefix (KeyName DownloadUrl @ '':'') k then raw k else None)"
    by auto
  have "raw = ?kv"
    using raw nm by (simp add: NamedSection_def buildSectionName_Remote INI_GetKvmap_def)
  with char have "ov k = [''download-url:repo'' \<mapsto> ''w''] k" for k
    by (auto simp add: KeyName_def DownloadUrl_def)
  then have "ov = [''download-url:repo'' \<mapsto> ''w'']"
    by (rule ext)
  with ov show ?thesis by simp
qed

section \<open>Paths\<close>

lemma example_paths:
  "filepath_Join ''/home/u'' ''github-release-monitor'' = ''/home/u/github-release-monitor''"
  "filepath_Join ''/home/u/github-release-monitor'' ''config'' =
     ''/home/u/github-release-monitor/config''"
  "filepath_Dir ''/home/u/github-release-monitor/config'' = ''/home/u/github-release-monitor''"
  "filepath_Dir ''/home/u/github-release-monitor'' = ''/home/u''"
  by (simp_all add: filepath_Join_def filepath_Dir_def Clean_def Split.simps)

lemma Clean_examples:
  "Clean ''/home/u/'' = ''/home/u''" "Clean ''a//b/./c/..'' = ''a/b''" "Clean ''../a/..'' = ''..''"
  "Clean ''/..'' = ''/''" "Clean [] = ''.''"
  by (simp_all add: Clean_def Split.simps)

section \<open>A configuration without a file\<close>

lemma NewConfiguration_no_file:
  "\<not> os_Stat fs (filepath_Join (filepath_Join home ''github-release-monitor'') ''config'') \<Longrightarrow>
   NewConfiguration ParseFile fs home = Inr \<lparr>ini = None, homeDir = home\<rparr>"
  by (simp add: NewConfiguration_def Let_def)

text \<open>
  C4. With no configuration file \<open>NewConfiguration\<close> succeeds, but the store it
  returns is the nil pointer, not an empty store: every read accessor called on
  it with a section of the right kind ends in the nil-pointer panic instead of
  returning an empty mapping or \<open>found = false\<close>. Only \<open>ApplyChanges\<close> and
  \<open>store\<close> test for the nil store.
\<close>

theorem accessors_panic_without_file:
  "NewConfiguration ParseFile
     \<lparr>dirs = {''/home/u''}, files = Map.empty, mkdir_denied = {}, create_denied = {},
      write_fails = Map.empty, writes = 0\<rparr>
     ''/home/u'' = Inr \<lparr>ini = None, homeDir = ''/home/u''\<rparr> \<and>
   NamedSections \<lparr>ini = None, homeDir = ''/home/u''\<rparr> Remote = Inl NilPointerDereference \<and>
   NamedSection \<lparr>ini = None, homeDir = ''/home/u''\<rparr> ''acme'' Remote = Inl NilPointerDereference \<and>
   NamedSectionGet \<lparr>ini = None, homeDir = ''/home/u''\<rparr> ''acme'' Remote Username [] =
     Inl NilPointerDereference \<and>
   NamedSectionGetOverrides \<lparr>ini = None, homeDir = ''/home/u''\<rparr> ''acme'' Remote ReleasePattern =
     Inl NilPointerDereference \<and>
   Section \<lparr>ini = None, homeDir = ''/home/u''\<rparr> \<lparr>section_string = ''core'', section_bool = False\<rparr> =
     Inl NilPointerDereference \<and>
   SectionGet \<lparr>ini = None, homeDir = ''/home/u''\<rparr> \<lparr>section_string = ''core'', section_bool = False\<rparr>
     ReleasePattern ''repo'' = Inl NilPointerDereference \<and>
   SectionGetOverrides \<lparr>ini = None, homeDir = ''/home/u''\<rparr>
     \<lparr>section_string = ''core'', section_bool = False\<rparr> ReleasePattern = Inl NilPointerDereference"
  by (simp add: NewConfiguration_no_file os_Stat_def example_paths NamedSections_def
        NamedSection_def NamedSectionGet_def NamedSectionGetOverrides_def Section_def
        SectionGet_def SectionGetOverrides_def sectionGet_def Named_def Remote_fields Let_def)

section \<open>What the export leaves out\<close>

lemma KeyLookup_bare: "CHR '':'' \<notin> set k \<Longrightarrow> KeyLookup k = keyLookup k"
  by (simp add: KeyLookup_def Split_char_absent)

lemma KeyLookup_qualified: "CHR '':'' \<notin> set k \<Longrightarrow> KeyLookup (k @ '':'' @ S) = keyLookup k"
  by (simp add: KeyLookup_def Split_char_first)

lemma keyLookup_credentials:
  "keyLookup ''username'' = Some Username"
  "keyLookup ''password'' = Some Password"
  "keyLookup ''salt'' = Some Salt"
  by (simp_all add: keyLookup_def KeyName_def Username_def Password_def Salt_def
        RemoteUser_def ShowPrivate_def RepositoryPattern_def ReleasePattern_def
        MilestonePattern_def RepositoryBlacklisted_def DownloadUrl_def)

lemma credentials_not_exportable:
  "\<not> Exportable Username" "\<not> Exportable Password" "\<not> Exportable Salt"
  by (simp_all add: Exportable_def Username_def Password_def Salt_def)

lemma export_entry:
  assumes "export c n sect = Inr out"
  shows "out k = Some v \<Longrightarrow> \<exists>key. KeyLookup k = Some key \<and> Exportable key"
    and "KeyLookup k = Some key \<Longrightarrow> \<not> Exportable key \<Longrightarrow> out k = None"
  using assms by (auto simp add: export_def split: sum.splits option.splits if_splits)

text \<open>
  C9. Whatever the store holds, the output of the export of a named-section
  instance has no entry for \<open>username\<close>, \<open>password\<close> or \<open>salt\<close>, neither
  the bare key nor the key with any specifier; every entry it has belongs to
  an exportable key of the registry.
\<close>

theorem export_omits_credentials:
  assumes "export c n sect = Inr out"
  shows "out ''username'' = None \<and> out ''password'' = None \<and> out ''salt'' = None \<and>
         (\<forall>S. out (''username:'' @ S) = None \<and> out (''password:'' @ S) = None \<and>
              out (''salt:'' @ S) = None) \<and>
         (\<forall>k v. out k = Some v \<longrightarrow> (\<exists>key. KeyLookup k = Some key \<and> Exportable key))"
proof -
  have bare: "KeyLookup ''username'' = Some Username" "KeyLookup ''password'' = Some Password"
    "KeyLookup ''salt'' = Some Salt"
    by (simp_all add: KeyLookup_bare keyLookup_credentials)
  have qual: "KeyLookup (''username:'' @ S) = Some Username"
    "KeyLookup (''password:'' @ S) = Some Password"
    "KeyLookup (''salt:'' @ S) = Some Salt" for S
    using KeyLookup_qualified [of "''username''" S] KeyLookup_qualified [of "''password''" S]
      KeyLookup_qualified [of "''salt''" S]
    by (simp_all add: keyLookup_credentials)
  show ?thesis
    using export_entry [OF assms] bare qual credentials_not_exportable
    by blast
qed

theorem export_omits_credentials_witness:
  "\<exists>out.
     export
       \<lparr>ini = Some [''Remote \"acme\"'' \<mapsto>
                     [''username'' \<mapsto> ''bob'', ''password'' \<mapsto> ''c2VhbGVk'', ''salt'' \<mapsto> ''bm9uY2U='',
                      ''username:repo'' \<mapsto> ''eve'', ''user'' \<mapsto> ''acme-corp'']],
        homeDir = ''/home/u''\<rparr> ''acme'' Remote = Inr out \<and>
     out ''username'' = None \<and> out ''password'' = None \<and> out ''salt'' = None \<and>
     out ''username:repo'' = None \<and> out ''user'' = Some ''acme-corp''"
proof -
  let ?kv = "[''username'' \<mapsto> ''bob'', ''password'' \<mapsto> ''c2VhbGVk'', ''salt'' \<mapsto> ''bm9uY2U='',
              ''username:repo'' \<mapsto> ''eve'', ''user'' \<mapsto> ''acme-corp'']"
  let ?c = "\<lparr>ini = Some [''Remote \"acme\"'' \<mapsto> ?kv], homeDir = ''/home/u''\<rparr>"
  let ?out = "\<lambda>k. case KeyLookup k of
                     None \<Rightarrow> None
                   | Some key \<Rightarrow> if Exportable key then ?kv k else None"
  have e: "export ?c ''acme'' Remote = Inr ?out"
    by (simp add: export_def NamedSection_def Named_def Remote_fields buildSectionName_Remote
          INI_GetKvmap_def)
  note t = export_omits_credentials [OF e]
  have "KeyLookup ''user'' = Some RemoteUser"
    by (simp add: KeyLookup_bare keyLookup_def KeyName_def Username_def Password_def Salt_def
          RemoteUser_def ShowPrivate_def RepositoryPattern_def ReleasePattern_def
          MilestonePattern_def RepositoryBlacklisted_def DownloadUrl_def)
  then have u: "?out ''user'' = Some ''acme-corp''"
    by (simp add: Exportable_def RemoteUser_def)
  from t have "?out ''username'' = None" "?out ''password'' = None" "?out ''salt'' = None"
    by blast+
  moreover from t have "?out (''username:'' @ ''repo'') = None"
    by blast
  then have "?out ''username:repo'' = None"
    unfolding append_Cons append_Nil .
  ultimately show ?thesis
    using e u by (intro exI [of _ ?out]) (simp only: simp_thms)
qed

section \<open>Batches of edits\<close>

lemma apply_edit_Inr:
  assumes "apply_edit e c = Inr c'"
  shows "\<exists>i i'. ini c = Some i \<and> ini c' = Some i' \<and> homeDir c' = homeDir c \<and> well_kinded e"
  using assms
  by (cases e)
     (auto simp add: Delete_def SectionSet_def SectionDelete_def NamedDelete_def
        NamedSectionSet_def NamedSectionDelete_def Let_def split: if_splits option.splits)


lemma apply_edit_succeeds:
  assumes "ini c = Some i" and "well_kinded e"
  shows "\<exists>c'. apply_edit e c = Inr c'"
  using assms
  by (cases e)
     (simp_all add: Delete_def SectionSet_def SectionDelete_def NamedDelete_def
        NamedSectionSet_def NamedSectionDelete_def Let_def)

lemma apply_edits_succeeds:
  assumes "ini c = Some i" and "list_all well_kinded es"
  shows "\<exists>c'. apply_edits es c = Inr c'"
  using assms
proof (induction es arbitrary: c i)
  case Nil
  then show ?case by simp
next
  case (Cons e es)
  from Cons.prems obtain c1 where e: "apply_edit e c = Inr c1"
    using apply_edit_succeeds [of c i e] by auto
  from apply_edit_Inr [OF e] obtain i1 where "ini c1 = Some i1" by auto
  with Cons.IH [of c1 i1] Cons.prems(2) e show ?case by auto
qed


section \<open>Writing the store\<close>



lemma store_dies_when_directory_is_a_file:
  "ApplyChanges Write \<lparr>ini = None, homeDir = ''/home/u''\<rparr>
     \<lparr>dirs = {''/home/u''}, files = [''/home/u/github-release-monitor'' \<mapsto> []],
      mkdir_denied = {}, create_denied = {}, write_fails = Map.empty, writes = 0\<rparr>
     (apply_edits [DoNamedSectionSet ''acme'' Remote Username [] ''bob'']) =
   Inl (Fatal ''Could not create config file'')"
  by (simp add: ApplyChanges_def store_def Let_def os_Stat_def os_MkdirAll_def os_Create_def
        example_paths INI_New_def NamedSectionSet_def Named_def Remote_fields)

text \<open>
  C3. The claim fails where the write fails. \<open>store\<close> ends the process when
  the directory or the file cannot be created, but it drops the error of
  \<^verbatim>\<open>ini.Write\<close>: on a file system that lets the file be created and then
  refuses the write (a full disk), \<open>ApplyChanges\<close> returns as if all were
  well, the edit is in the store in memory, and the file is empty.
\<close>

theorem ApplyChanges_returns_after_failed_write:
  "ApplyChanges Write \<lparr>ini = None, homeDir = ''/home/u''\<rparr>
     \<lparr>dirs = {''/home/u''}, files = Map.empty, mkdir_denied = {}, create_denied = {},
      write_fails = [''/home/u/github-release-monitor/config'' \<mapsto> []], writes = 0\<rparr>
     (apply_edits [DoNamedSectionSet ''acme'' Remote Username [] ''bob'']) =
   Inr (\<lparr>ini = Some [''Remote \"acme\"'' \<mapsto> [''username'' \<mapsto> ''bob'']], homeDir = ''/home/u''\<rparr>,
        \<lparr>dirs = {''/home/u/github-release-monitor'', ''/home/u''},
         files = [''/home/u/github-release-monitor/config'' \<mapsto> []],
         mkdir_denied = {}, create_denied = {},
         write_fails = [''/home/u/github-release-monitor/config'' \<mapsto> []], writes = Suc 0\<rparr>)"
  by (simp add: ApplyChanges_def store_def Let_def os_Stat_def os_MkdirAll_def os_Create_def
        file_Write_def example_paths INI_New_def NamedSectionSet_def Named_def Remote_fields
        buildSectionName_Remote INI_SectionSet_def Username_def KeyName_def)

section \<open>Reloading the persisted store\<close>








lemma NewConfiguration_parsed:
  assumes "files fs (filepath_Join (filepath_Join home ''github-release-monitor'') ''config'') =
             Some content"
    and "ParseFile content = Some i"
  shows "NewConfiguration ParseFile fs home = Inr \<lparr>ini = Some i, homeDir = home\<rparr>"
  using assms by (auto simp add: NewConfiguration_def Let_def os_Stat_def)





section \<open>Encryption and decryption\<close>








end
